theory Spec2Isabelle
  imports Main
begin

section \<open>JavaScript dates\<close>

text \<open>
  A JavaScript \<open>Date\<close> holds a time value: an integral number of milliseconds since
  1970-01-01T00:00:00Z, or \<open>NaN\<close> (an invalid date). The functions below are the abstract
  operations of the ECMAScript specification (section "Date Objects") that
  \<open>getDate\<close> and \<open>setDate\<close> are made of. Time values are below \<open>2^53\<close> in magnitude,
  so the double arithmetic of the language is exact and \<open>int\<close> models it.
\<close>

datatype jsdate = Date int | InvalidDate

definition msPerDay :: int where
  "msPerDay = 86400000"

definition Day :: "int \<Rightarrow> int" where
  "Day t = t div msPerDay"

definition TimeWithinDay :: "int \<Rightarrow> int" where
  "TimeWithinDay t = t mod msPerDay"

definition DaysInYear :: "int \<Rightarrow> int" where
  "DaysInYear y =
     (if y mod 4 \<noteq> 0 then 365
      else if y mod 100 \<noteq> 0 then 366
      else if y mod 400 \<noteq> 0 then 365
      else 366)"

definition DayFromYear :: "int \<Rightarrow> int" where
  "DayFromYear y =
     365 * (y - 1970) + (y - 1969) div 4 - (y - 1901) div 100 + (y - 1601) div 400"

definition TimeFromYear :: "int \<Rightarrow> int" where
  "TimeFromYear y = msPerDay * DayFromYear y"

text \<open>
  \<open>YearFromTime t\<close> is the largest year \<open>y\<close> with \<open>TimeFromYear y \<le> t\<close>. It is computed
  from the mean length of a Gregorian year (146097 days in 400 years), which is off by
  at most one year, and then adjusted; lemma \<open>YearFromTime_spec\<close> below shows that the
  result is the year the specification asks for.
\<close>

definition YearFromTime :: "int \<Rightarrow> int" where
  "YearFromTime t =
     (let d = Day t; y = 1970 + (400 * d) div 146097
      in if DayFromYear (y + 1) \<le> d then y + 1
         else if d < DayFromYear y then y - 1
         else y)"

definition InLeapYear :: "int \<Rightarrow> bool" where
  "InLeapYear t = (DaysInYear (YearFromTime t) = 366)"

definition DayWithinYear :: "int \<Rightarrow> int" where
  "DayWithinYear t = Day t - DayFromYear (YearFromTime t)"

text \<open>The number of days of the year before month \<open>m\<close> (0 is January).\<close>

definition monthStart :: "int \<Rightarrow> bool \<Rightarrow> int" where
  "monthStart m leap =
     (let l = (if leap then 1 else 0)
      in if m = 0 then 0
         else if m = 1 then 31
         else if m = 2 then 59 + l
         else if m = 3 then 90 + l
         else if m = 4 then 120 + l
         else if m = 5 then 151 + l
         else if m = 6 then 181 + l
         else if m = 7 then 212 + l
         else if m = 8 then 243 + l
         else if m = 9 then 273 + l
         else if m = 10 then 304 + l
         else 334 + l)"

definition MonthFromTime :: "int \<Rightarrow> int" where
  "MonthFromTime t =
     (let d = DayWithinYear t; l = (if InLeapYear t then 1 else 0)
      in if d < 31 then 0
         else if d < 59 + l then 1
         else if d < 90 + l then 2
         else if d < 120 + l then 3
         else if d < 151 + l then 4
         else if d < 181 + l then 5
         else if d < 212 + l then 6
         else if d < 243 + l then 7
         else if d < 273 + l then 8
         else if d < 304 + l then 9
         else if d < 334 + l then 10
         else 11)"

definition DateFromTime :: "int \<Rightarrow> int" where
  "DateFromTime t = DayWithinYear t - monthStart (MonthFromTime t) (InLeapYear t) + 1"

text \<open>
  \<open>MakeDay year month date\<close>: the day number of the first of the month, plus
  \<open>date - 1\<close>. A month outside 0..11 carries into the year.
\<close>

definition MakeDay :: "int \<Rightarrow> int \<Rightarrow> int \<Rightarrow> int" where
  "MakeDay year month dt =
     (let ym = year + month div 12; mn = month mod 12
      in DayFromYear ym + monthStart mn (DaysInYear ym = 366) + dt - 1)"

definition MakeDate :: "int \<Rightarrow> int \<Rightarrow> int" where
  "MakeDate day time = day * msPerDay + time"

definition TimeClip :: "int \<Rightarrow> jsdate" where
  "TimeClip t = (if \<bar>t\<bar> > 8640000000000000 then InvalidDate else Date t)"

text \<open>
  The local time zone is the host's: \<open>tz t isUTC\<close> is the specification's
  \<open>LocalTZA\<close>, the offset of local time in milliseconds at time \<open>t\<close>, where \<open>t\<close> is a
  UTC time value when \<open>isUTC\<close> holds and a local one otherwise. It is a parameter of
  everything that reads or writes a date in local time.
\<close>

type_synonym timezone = "int \<Rightarrow> bool \<Rightarrow> int"

definition LocalTime :: "timezone \<Rightarrow> int \<Rightarrow> int" where
  "LocalTime tz t = t + tz t True"

definition UTC :: "timezone \<Rightarrow> int \<Rightarrow> int" where
  "UTC tz t = t - tz t False"

text \<open>\<open>new Date(value)\<close> of a date copies its time value; of \<open>undefined\<close> it is invalid.\<close>

definition new_Date :: "int option \<Rightarrow> jsdate" where
  "new_Date v = (case v of None \<Rightarrow> InvalidDate | Some t \<Rightarrow> TimeClip t)"

text \<open>\<open>Date.prototype.getDate\<close>: the day of the month in local time, \<open>NaN\<close> (here \<open>None\<close>)
  for an invalid date.\<close>

definition getDate :: "timezone \<Rightarrow> jsdate \<Rightarrow> int option" where
  "getDate tz d =
     (case d of InvalidDate \<Rightarrow> None | Date t \<Rightarrow> Some (DateFromTime (LocalTime tz t)))"

text \<open>\<open>Date.prototype.setDate\<close>; the model returns the date that the method leaves in
  the object.\<close>

definition setDate :: "timezone \<Rightarrow> jsdate \<Rightarrow> int option \<Rightarrow> jsdate" where
  "setDate tz d dt =
     (case d of
        InvalidDate \<Rightarrow> InvalidDate
      | Date tv \<Rightarrow>
          (case dt of
             None \<Rightarrow> InvalidDate
           | Some n \<Rightarrow>
               (let t = LocalTime tz tv;
                    newDate = MakeDate (MakeDay (YearFromTime t) (MonthFromTime t) n)
                                (TimeWithinDay t)
                in TimeClip (UTC tz newDate))))"

section \<open>The Subscription model\<close>

text \<open>
  The paths of \<open>subscriptionSchema\<close> that its date validators and its \<open>pre("save")\<close>
  hook read or write. \<open>frequency\<close> and \<open>status\<close> have the values of their \<open>enum\<close>;
  \<open>startDate\<close> and \<open>endDate\<close> are \<open>None\<close> when the candidate has no value for them;
  \<open>renewalDate\<close> is the property of the document that the hook reads and assigns
  (the schema declares no path of that name); it is \<open>None\<close> while it is unset.
\<close>

datatype frequency = daily | weekly | monthly | yearly

datatype status = active | inactive | cancelled

record subscription =
  frequency :: frequency
  status :: status
  startDate :: "int option"
  endDate :: "int option"
  renewalDate :: "jsdate option"

subsection \<open>Validation of the date paths\<close>

text \<open>
  A path's validators run in order, \<open>required\<close> first, and the first one that fails
  gives the path's error; validators other than \<open>required\<close> are skipped for a missing
  value. A comparison with \<open>undefined\<close> is false.
\<close>

definition startDate_validator :: "subscription \<Rightarrow> int \<Rightarrow> bool" where
  "startDate_validator this v = (case endDate this of None \<Rightarrow> False | Some e \<Rightarrow> v < e)"

definition endDate_validator :: "subscription \<Rightarrow> int \<Rightarrow> bool" where
  "endDate_validator this v = (case startDate this of None \<Rightarrow> False | Some s \<Rightarrow> v > s)"

definition validate_startDate :: "subscription \<Rightarrow> (string \<times> string) list" where
  "validate_startDate this =
     (case startDate this of
        None \<Rightarrow> [(''startDate'', ''start date is required'')]
      | Some v \<Rightarrow>
          if startDate_validator this v then []
          else [(''startDate'', ''start date must be before end date'')])"

definition validate_endDate :: "subscription \<Rightarrow> (string \<times> string) list" where
  "validate_endDate this =
     (case endDate this of
        None \<Rightarrow> [(''endDate'', ''end date is required'')]
      | Some v \<Rightarrow>
          if endDate_validator this v then []
          else [(''endDate'', ''end date must be after start date'')])"

definition validate_dates :: "subscription \<Rightarrow> (string \<times> string) list" where
  "validate_dates this = validate_startDate this @ validate_endDate this"

subsection \<open>The pre-save hook\<close>

definition renewalPeriod :: "frequency \<Rightarrow> int" where
  "renewalPeriod f = (case f of daily \<Rightarrow> 1 | weekly \<Rightarrow> 7 | monthly \<Rightarrow> 30 | yearly \<Rightarrow> 365)"

text \<open>
  \<open>subscriptionSchema.pre("save")\<close>, as a function of the document, with the host's
  time zone and the value of \<open>new Date()\<close> as parameters. The hook calls \<open>next\<close> inside
  the first branch and again at its end; \<open>next\<close> only schedules the continuation of the
  save, so both branches run on the document before it is written.
\<close>

definition assign_renewalDate :: "timezone \<Rightarrow> subscription \<Rightarrow> subscription" where
  "assign_renewalDate tz this =
     (if renewalDate this = None then
        (let d = new_Date (startDate this)
         in this\<lparr>renewalDate :=
              Some (setDate tz d
                (map_option (\<lambda>n. n + renewalPeriod (frequency this)) (getDate tz d)))\<rparr>)
      else this)"

definition update_status :: "int \<Rightarrow> subscription \<Rightarrow> subscription" where
  "update_status now this =
     (case renewalDate this of
        Some (Date r) \<Rightarrow> if r < now then this\<lparr>status := inactive\<rparr> else this
      | _ \<Rightarrow> this)"

definition pre_save :: "timezone \<Rightarrow> int \<Rightarrow> subscription \<Rightarrow> subscription" where
  "pre_save tz now this = update_status now (assign_renewalDate tz this)"

text \<open>
  Saving a document validates it, then runs the hook; a validation failure rejects the
  save with the errors of the paths and the hook does not run.
\<close>

datatype save_error = ValidationFailed "(string \<times> string) list"

definition save :: "timezone \<Rightarrow> int \<Rightarrow> subscription \<Rightarrow> save_error + subscription" where
  "save tz now this =
     (case validate_dates this of
        [] \<Rightarrow> Inr (pre_save tz now this)
      | e # es \<Rightarrow> Inl (ValidationFailed (e # es)))"

section \<open>Strings\<close>

text \<open>
  The string operations of the language that the schema and the middleware use, on
  ASCII text: \<open>String.prototype.trim\<close>, \<open>toLowerCase\<close>, \<open>startsWith\<close> and
  \<open>split\<close> with a one-character separator.
\<close>

definition code :: "char \<Rightarrow> nat" where
  "code c = of_char c"

definition is_space :: "char \<Rightarrow> bool" where
  "is_space c = (code c = 32 \<or> (9 \<le> code c \<and> code c \<le> 13))"

definition is_lower :: "char \<Rightarrow> bool" where
  "is_lower c = (97 \<le> code c \<and> code c \<le> 122)"

definition is_upper :: "char \<Rightarrow> bool" where
  "is_upper c = (65 \<le> code c \<and> code c \<le> 90)"

definition is_digit :: "char \<Rightarrow> bool" where
  "is_digit c = (48 \<le> code c \<and> code c \<le> 57)"

definition trim :: "string \<Rightarrow> string" where
  "trim s = rev (dropWhile is_space (rev (dropWhile is_space s)))"

definition toLowerCase :: "string \<Rightarrow> string" where
  "toLowerCase s = map (\<lambda>c. if is_upper c then char_of (code c + 32) else c) s"

definition startsWith :: "string \<Rightarrow> string \<Rightarrow> bool" where
  "startsWith s p = (take (length p) s = p)"

fun split :: "char \<Rightarrow> string \<Rightarrow> string list" where
  "split sep [] = [[]]"
| "split sep (c # cs) =
     (if c = sep then [] # split sep cs
      else (case split sep cs of
              [] \<Rightarrow> [[c]]
            | w # ws \<Rightarrow> (c # w) # ws))"

section \<open>The User model\<close>

text \<open>
  A document of the \<open>User\<close> collection. \<open>password\<close> is \<open>None\<close> in a document that
  was loaded with \<open>select("-password")\<close>; \<open>createdAt\<close> and \<open>updatedAt\<close> are the
  schema's timestamps.
\<close>

type_synonym objectId = nat

record user =
  uid :: objectId
  name :: string
  email :: string
  password :: "string option"
  createdAt :: int
  updatedAt :: int

subsection \<open>Responses\<close>

datatype json = JNull | JBool bool | JNum int | JStr string | JObj "(string \<times> json) list"

fun field :: "string \<Rightarrow> json \<Rightarrow> json option" where
  "field k (JObj kvs) = map_of kvs k"
| "field k _ = None"

text \<open>\<open>res.status(code).json(body)\<close>.\<close>

datatype response = Response nat json

text \<open>
  The serialisation of a document in a response body: the identifier and every path of
  the schema that the document holds (the version key is not modelled). The schema sets
  neither \<open>select: false\<close> nor a \<open>toJSON\<close> transform on \<open>password\<close>, so the
  path is left out only of a document loaded without it.
\<close>

definition toJSON :: "user \<Rightarrow> json" where
  "toJSON u =
     JObj ([(''_id'', JNum (int (uid u))),
            (''name'', JStr (name u)),
            (''email'', JStr (email u))]
           @ (case password u of None \<Rightarrow> [] | Some p \<Rightarrow> [(''password'', JStr p)])
           @ [(''createdAt'', JNum (createdAt u)),
              (''updatedAt'', JNum (updatedAt u))])"

subsection \<open>Errors and collaborators\<close>

datatype error =
    ValidationError "(string \<times> string) list"
  | DuplicateKeyError
  | TokenError string
  | IllegalArguments string

text \<open>
  What a handler gets from outside the repository: bcryptjs (\<open>genSalt\<close>, \<open>hash\<close>,
  \<open>compare\<close>), jsonwebtoken with the configured secret and expiry (\<open>sign\<close>, which
  throws on a bad configuration, and \<open>verify\<close>, which throws on an expired, forged or
  malformed token and otherwise gives the \<open>userId\<close> of the payload), the clock and the
  identifier of the next document.
\<close>

record env =
  bcrypt_genSalt :: string
  bcrypt_hash :: "string \<Rightarrow> string \<Rightarrow> string"
  bcrypt_compare :: "string \<Rightarrow> string \<Rightarrow> bool"
  jwt_sign :: "objectId \<Rightarrow> error + string"
  jwt_verify :: "string \<Rightarrow> error + objectId"
  clock :: int
  newId :: objectId

subsection \<open>Schema validation\<close>

text \<open>
  \<open>/^\S+@\S+\.\S+$/\<close>: no white space, an \<open>@\<close> after at least one character, and
  later a dot with at least one character on each side.
\<close>

definition email_regex :: "string \<Rightarrow> bool" where
  "email_regex s =
     (list_all (\<lambda>c. \<not> is_space c) s \<and>
      list_ex (\<lambda>i. s ! i = CHR ''@'' \<and> 1 \<le> i \<and>
                 list_ex (\<lambda>j. s ! j = CHR ''.'' \<and> i + 2 \<le> j \<and> j + 2 \<le> length s)
                   [0..<length s])
        [0..<length s])"

text \<open>
  \<open>/^(?=.*[a-z])(?=.*[A-Z])(?=.*\d)(?=.*[@$!%*?&])[A-Za-z\d@$!%*?&]{8,}$/\<close>.
\<close>

definition is_special :: "char \<Rightarrow> bool" where
  "is_special c = (c \<in> set ''@$!%*?&'')"

definition password_class :: "char \<Rightarrow> bool" where
  "password_class c = (is_upper c \<or> is_lower c \<or> is_digit c \<or> is_special c)"

definition password_regex :: "string \<Rightarrow> bool" where
  "password_regex s =
     (list_ex is_lower s \<and> list_ex is_upper s \<and> list_ex is_digit s \<and>
      list_ex is_special s \<and> list_all password_class s \<and> 8 \<le> length s)"

text \<open>
  The validators of a path run in order, \<open>required\<close> first (it fails on a missing
  value and on the empty string), and the first failure is the path's error.
\<close>

definition validate_name :: "string option \<Rightarrow> (string \<times> string) list" where
  "validate_name v =
     (case v of
        None \<Rightarrow> [(''name'', ''username is required'')]
      | Some s \<Rightarrow>
          if s = [] then [(''name'', ''username is required'')]
          else if length s < 3 then
            [(''name'', ''username must be at least 3 characters long'')]
          else if length s > 20 then
            [(''name'', ''username must be less than 20 characters long'')]
          else [])"

definition validate_email :: "string option \<Rightarrow> (string \<times> string) list" where
  "validate_email v =
     (case v of
        None \<Rightarrow> [(''email'', ''email is required'')]
      | Some s \<Rightarrow>
          if s = [] then [(''email'', ''email is required'')]
          else if \<not> email_regex s then [(''email'', ''invalid email address'')]
          else [])"

definition validate_password :: "string option \<Rightarrow> (string \<times> string) list" where
  "validate_password v =
     (case v of
        None \<Rightarrow> [(''password'', ''password is required'')]
      | Some s \<Rightarrow>
          if s = [] then [(''password'', ''password is required'')]
          else if \<not> password_regex s then [(''password'', ''invalid password'')]
          else [])"

subsection \<open>Queries\<close>

text \<open>
  \<open>User.findOne({ email })\<close>: the query value goes through the setters of the path
  (\<open>lowercase\<close>, \<open>trim\<close>) as a stored value does; \<open>undefined\<close> matches no document.
\<close>

definition findOne :: "user list \<Rightarrow> string option \<Rightarrow> user option" where
  "findOne users e =
     (case e of
        None \<Rightarrow> None
      | Some s \<Rightarrow> find (\<lambda>u. email u = toLowerCase (trim s)) users)"

definition findById :: "user list \<Rightarrow> objectId \<Rightarrow> user option" where
  "findById users i = find (\<lambda>u. uid u = i) users"

text \<open>\<open>.select("-password")\<close>.\<close>

definition select_minus_password :: "user \<Rightarrow> user" where
  "select_minus_password u = u\<lparr>password := None\<rparr>"

text \<open>
  \<open>User.create([{ name, email, password }], { session })\<close>: the setters, the
  validators of the three paths, the unique index on \<open>email\<close>, then the new document.
\<close>

definition create ::
  "env \<Rightarrow> user list \<Rightarrow> string option \<Rightarrow> string option \<Rightarrow> string option \<Rightarrow> error + user"
where
  "create env users n e p =
     (let n' = map_option trim n;
          e' = map_option (\<lambda>s. toLowerCase (trim s)) e;
          errs = validate_name n' @ validate_email e' @ validate_password p
      in case (errs, n', e', p) of
           ([], Some vn, Some ve, Some vp) \<Rightarrow>
             if list_ex (\<lambda>u. email u = ve) users then Inl DuplicateKeyError
             else Inr \<lparr>uid = newId env, name = vn, email = ve, password = Some vp,
                       createdAt = clock env, updatedAt = clock env\<rparr>
         | _ \<Rightarrow> Inl (ValidationError errs))"

section \<open>Handlers\<close>

text \<open>
  A transaction of a session is in progress (with the documents written in it),
  committed or aborted; a session is ended or not. A handler's outcome is the response
  it sent (if any), its call of \<open>next\<close> (if any), the request as it leaves it, the
  collection and the session it used.
\<close>

datatype transaction = InProgress "user list" | Committed | Aborted

record session =
  transaction :: transaction
  ended :: bool

datatype next_call = Next | NextError error

record request =
  headers_authorization :: "string option"
  req_user :: "user option"

record body =
  body_name :: "string option"
  body_email :: "string option"
  body_password :: "string option"

record outcome =
  response :: "response option"
  forwarded :: "next_call option"
  collection :: "user list"
  session_used :: "session option"

subsection \<open>signup\<close>

text \<open>
  The body of the \<open>try\<close> block of \<open>signup\<close>: \<open>Inl\<close> is an exception thrown in it,
  \<open>Inr\<close> the outcome it reaches by itself. The session starts its transaction before
  the block. When a user with the email exists the handler returns from inside the
  block, with the transaction still in progress.
\<close>

definition hash_password :: "env \<Rightarrow> string option \<Rightarrow> error + string" where
  "hash_password env pw =
     (case pw of
        None \<Rightarrow> Inl (IllegalArguments ''undefined, string'')
      | Some p \<Rightarrow> Inr (bcrypt_hash env p (bcrypt_genSalt env)))"

definition signup_try :: "env \<Rightarrow> user list \<Rightarrow> body \<Rightarrow> error + outcome" where
  "signup_try env users b =
     (case findOne users (body_email b) of
        Some existingUser \<Rightarrow>
          Inr \<lparr>response = Some (Response 400 (JObj [(''message'', JStr ''User already exists'')])),
               forwarded = None, collection = users,
               session_used = Some \<lparr>transaction = InProgress [], ended = False\<rparr>\<rparr>
      | None \<Rightarrow>
          (case hash_password env (body_password b) of
             Inl err \<Rightarrow> Inl err
           | Inr hashedPassword \<Rightarrow>
               (case create env users (body_name b) (body_email b) (Some hashedPassword) of
                  Inl err \<Rightarrow> Inl err
                | Inr newUser \<Rightarrow>
                    (case jwt_sign env (uid newUser) of
                       Inl err \<Rightarrow> Inl err
                     | Inr token \<Rightarrow>
                         Inr \<lparr>response = Some (Response 201 (JObj
                                [(''message'', JStr ''User created successfully''),
                                 (''user'', toJSON newUser),
                                 (''token'', JStr token),
                                 (''success'', JBool True)])),
                              forwarded = None, collection = users @ [newUser],
                              session_used = Some \<lparr>transaction = Committed, ended = True\<rparr>\<rparr>))))"

text \<open>The \<open>catch\<close> block aborts the transaction, which drops what was written in it,
  ends the session and calls \<open>next(error)\<close>.\<close>

definition signup :: "env \<Rightarrow> user list \<Rightarrow> body \<Rightarrow> outcome" where
  "signup env users b =
     (case signup_try env users b of
        Inr out \<Rightarrow> out
      | Inl err \<Rightarrow>
          \<lparr>response = None, forwarded = Some (NextError err), collection = users,
           session_used = Some \<lparr>transaction = Aborted, ended = True\<rparr>\<rparr>)"

subsection \<open>signin\<close>

text \<open>\<open>bcrypt.compare\<close> rejects an argument that is not a string.\<close>

definition compare_password :: "env \<Rightarrow> string option \<Rightarrow> string option \<Rightarrow> error + bool" where
  "compare_password env pw stored =
     (case (pw, stored) of
        (Some p, Some h) \<Rightarrow> Inr (bcrypt_compare env p h)
      | (None, Some h) \<Rightarrow> Inl (IllegalArguments ''undefined, string'')
      | (Some p, None) \<Rightarrow> Inl (IllegalArguments ''string, undefined'')
      | (None, None) \<Rightarrow> Inl (IllegalArguments ''undefined, undefined''))"

text \<open>
  The \<open>try\<close> block of \<open>signin\<close>. None of its exits commits, aborts or ends the
  session.
\<close>

definition signin_try :: "env \<Rightarrow> user list \<Rightarrow> body \<Rightarrow> error + outcome" where
  "signin_try env users b =
     (let open_session = Some \<lparr>transaction = InProgress [], ended = False\<rparr>
      in case findOne users (body_email b) of
           None \<Rightarrow>
             Inr \<lparr>response = Some (Response 400 (JObj [(''message'', JStr ''User not found'')])),
                  forwarded = None, collection = users, session_used = open_session\<rparr>
         | Some u \<Rightarrow>
             (case compare_password env (body_password b) (password u) of
                Inl err \<Rightarrow> Inl err
              | Inr isPasswordCorrect \<Rightarrow>
                  if \<not> isPasswordCorrect then
                    Inr \<lparr>response = Some (Response 400
                                  (JObj [(''message'', JStr ''Invalid password'')])),
                         forwarded = None, collection = users, session_used = open_session\<rparr>
                  else
                    (case jwt_sign env (uid u) of
                       Inl err \<Rightarrow> Inl err
                     | Inr token \<Rightarrow>
                         Inr \<lparr>response = Some (Response 200 (JObj
                                [(''message'', JStr ''User signed in successfully''),
                                 (''data'', JObj [(''user'', toJSON u),
                                                  (''token'', JStr token),
                                                  (''success'', JBool True)])])),
                              forwarded = None, collection = users,
                              session_used = open_session\<rparr>)))"

text \<open>The \<open>catch\<close> block of \<open>signin\<close> is \<open>await session.abortTransaction()\<close> and
  nothing else.\<close>

definition signin :: "env \<Rightarrow> user list \<Rightarrow> body \<Rightarrow> outcome" where
  "signin env users b =
     (case signin_try env users b of
        Inr out \<Rightarrow> out
      | Inl err \<Rightarrow>
          \<lparr>response = None, forwarded = None, collection = users,
           session_used = Some \<lparr>transaction = Aborted, ended = False\<rparr>\<rparr>)"

subsection \<open>authorize\<close>

text \<open>
  The token the middleware reads from the request:
  \<open>req.headers.authorization.split(" ")[1]\<close> when the header is a non-empty string
  that starts with \<open>Bearer\<close>, and \<open>undefined\<close> (here \<open>None\<close>) otherwise and when
  the split has no second piece.
\<close>

definition bearer_token :: "request \<Rightarrow> string option" where
  "bearer_token req =
     (case headers_authorization req of
        None \<Rightarrow> None
      | Some h \<Rightarrow>
          if h \<noteq> [] \<and> startsWith h ''Bearer'' then
            (case split CHR '' '' h of
               p # t # ps \<Rightarrow> Some t
             | _ \<Rightarrow> None)
          else None)"

definition unauthorized :: response where
  "unauthorized = Response 401 (JObj [(''message'', JStr ''Unauthorized'')])"

text \<open>
  \<open>authorize\<close> returns the outcome and the request as it leaves it. \<open>!token\<close> holds
  for \<open>undefined\<close> and for the empty string. An exception of \<open>jwt.verify\<close> reaches
  the \<open>catch\<close> block, which calls \<open>next(error)\<close>.
\<close>

definition authorize :: "env \<Rightarrow> user list \<Rightarrow> request \<Rightarrow> outcome \<times> request" where
  "authorize env users req =
     (let stop = \<lparr>response = Some unauthorized, forwarded = None, collection = users,
                  session_used = None\<rparr>
      in case bearer_token req of
           None \<Rightarrow> (stop, req)
         | Some token \<Rightarrow>
             if token = [] then (stop, req)
             else
               (case jwt_verify env token of
                  Inl err \<Rightarrow>
                    (\<lparr>response = None, forwarded = Some (NextError err), collection = users,
                      session_used = None\<rparr>, req)
                | Inr userId \<Rightarrow>
                    (case findById users userId of
                       None \<Rightarrow> (stop, req)
                     | Some u \<Rightarrow>
                         (\<lparr>response = None, forwarded = Some Next, collection = users,
                           session_used = None\<rparr>,
                          req\<lparr>req_user := Some (select_minus_password u)\<rparr>))))"

subsection \<open>getUserProfile\<close>

text \<open>
  \<open>req.user.id\<close> is the identifier of the attached document and is never empty, so
  the first test fails only when no user is attached. The document is loaded again with
  \<open>User.findById(req.user.id)\<close>, without a \<open>select\<close>.
\<close>

definition getUserProfile :: "user list \<Rightarrow> request \<Rightarrow> outcome" where
  "getUserProfile users req =
     (case req_user req of
        None \<Rightarrow>
          \<lparr>response = Some (Response 401 (JObj
              [(''message'', JStr ''Authentication required. Please login first.''),
               (''success'', JBool False)])),
           forwarded = None, collection = users, session_used = None\<rparr>
      | Some attached \<Rightarrow>
          (case findById users (uid attached) of
             None \<Rightarrow>
               \<lparr>response = Some (Response 404 (JObj
                   [(''message'', JStr ''User not found''), (''success'', JBool False)])),
                forwarded = None, collection = users, session_used = None\<rparr>
           | Some u \<Rightarrow>
               \<lparr>response = Some (Response 200 (JObj
                   [(''message'', JStr ''User profile fetched successfully''),
                    (''data'', JObj [(''user'', toJSON u), (''success'', JBool True)])])),
                forwarded = None, collection = users, session_used = None\<rparr>))"

subsection \<open>The route of the own profile\<close>

text \<open>
  \<open>userRouter.get("/", getUserProfile)\<close>: the handler is the only function of the
  route, and the application mounts nothing that sets \<open>req.user\<close> before the router
  (\<open>express.json\<close>, \<open>express.urlencoded\<close> and \<open>cookieParser\<close> do not). The
  handler runs on the request as it came in, with its \<open>Authorization\<close> header, if
  any, and no user attached.
\<close>

definition userRouter_get_root :: "user list \<Rightarrow> string option \<Rightarrow> outcome" where
  "userRouter_get_root users authorization =
     getUserProfile users \<lparr>headers_authorization = authorization, req_user = None\<rparr>"

section \<open>Sample data\<close>

text \<open>
  Collaborators and documents for the examples. The hashers are stand-ins that return
  a fixed string of bcrypt's format (\<open>$2a$10$\<close>, then 53 characters of
  \<open>./A-Za-z0-9\<close>): the first has neither a dot nor a slash, the second has both.
\<close>

definition sample_env :: env where
  "sample_env =
     \<lparr>bcrypt_genSalt = ''$2a$10$N9qo8uLOickgx2ZMRZoMye'',
      bcrypt_hash = (\<lambda>p salt. salt @ ''IjZAgcfl7p92ldGxad68LJZdL17lhWy''),
      bcrypt_compare = (\<lambda>p h. p = ''Password1!''),
      jwt_sign = (\<lambda>i. Inr (''token'' @ replicate i CHR ''x'')),
      jwt_verify = (\<lambda>t. if take 5 t = ''token'' then Inr (length t - 5)
                          else Inl (TokenError ''jwt malformed'')),
      clock = 1700000000000,
      newId = 1\<rparr>"

definition slash_env :: env where
  "slash_env =
     sample_env\<lparr>bcrypt_genSalt := ''$2a$10$k87L/MF28Q673VKh8/cPi.'',
                bcrypt_hash := (\<lambda>p salt. salt @ ''SUl7MU/rWuSiIDDFayrKk/1tBsSQu4u'')\<rparr>"

definition sample_body :: body where
  "sample_body =
     \<lparr>body_name = Some ''Test User'', body_email = Some ''test@example.com'',
      body_password = Some ''Password1!''\<rparr>"

definition sample_user :: user where
  "sample_user =
     \<lparr>uid = 1, name = ''Test User'', email = ''test@example.com'',
      password = Some ''$2a$10$N9qo8uLOickgx2ZMRZoMyeIjZAgcfl7p92ldGxad68LJZdL17lhWy'',
      createdAt = 1700000000000, updatedAt = 1700000000000\<rparr>"

definition sample_subscription :: subscription where
  "sample_subscription =
     \<lparr>frequency = monthly, status = active, startDate = Some 1705276800000,
      endDate = Some 1736899200000, renewalDate = None\<rparr>"

definition utc :: timezone where
  "utc t isUTC = 0"

text \<open>A request as it comes in, with an \<open>Authorization\<close> header and no user attached.\<close>

definition incoming :: "string \<Rightarrow> request" where
  "incoming h = \<lparr>headers_authorization = Some h, req_user = None\<rparr>"

section \<open>The calendar functions\<close>

lemma div_bounds:
  fixes a n :: int
  assumes "0 < n"
  shows "n * (a div n) \<le> a" and "a - (n - 1) \<le> n * (a div n)"
proof -
  have e: "a = n * (a div n) + a mod n" by simp
  have "0 \<le> a mod n" "a mod n < n" using assms by simp_all
  then show "n * (a div n) \<le> a" and "a - (n - 1) \<le> n * (a div n)"
    using e by linarith+
qed

text \<open>The first day of year \<open>y\<close> is within two days of \<open>365.2425 * (y - 1970)\<close>.\<close>

lemma DayFromYear_lower: "146097 * (y - 1970) - 506 \<le> 400 * DayFromYear y"
proof -
  define q4 where "q4 = (y - 1969) div 4"
  define q100 where "q100 = (y - 1901) div 100"
  define q400 where "q400 = (y - 1601) div 400"
  have "y - 1972 \<le> 4 * q4"
    unfolding q4_def using div_bounds(2) [of 4 "y - 1969"] by simp
  then have a: "100 * (y - 1972) \<le> 400 * q4" by simp
  have "100 * q100 \<le> y - 1901"
    unfolding q100_def using div_bounds(1) [of 100 "y - 1901"] by simp
  then have b: "400 * q100 \<le> 4 * (y - 1901)" by simp
  have c: "y - 2000 \<le> 400 * q400"
    unfolding q400_def using div_bounds(2) [of 400 "y - 1601"] by simp
  have "DayFromYear y = 365 * (y - 1970) + q4 - q100 + q400"
    by (simp add: DayFromYear_def q4_def q100_def q400_def)
  then show ?thesis using a b c by simp
qed

lemma DayFromYear_upper: "400 * DayFromYear y \<le> 146097 * (y - 1970) + 589"
proof -
  define q4 where "q4 = (y - 1969) div 4"
  define q100 where "q100 = (y - 1901) div 100"
  define q400 where "q400 = (y - 1601) div 400"
  have "4 * q4 \<le> y - 1969"
    unfolding q4_def using div_bounds(1) [of 4 "y - 1969"] by simp
  then have a: "400 * q4 \<le> 100 * (y - 1969)" by simp
  have "y - 2000 \<le> 100 * q100"
    unfolding q100_def using div_bounds(2) [of 100 "y - 1901"] by simp
  then have b: "4 * (y - 2000) \<le> 400 * q100" by simp
  have c: "400 * q400 \<le> y - 1601"
    unfolding q400_def using div_bounds(1) [of 400 "y - 1601"] by simp
  have "DayFromYear y = 365 * (y - 1970) + q4 - q100 + q400"
    by (simp add: DayFromYear_def q4_def q100_def q400_def)
  then show ?thesis using a b c by simp
qed

text \<open>\<open>YearFromTime\<close> is the year whose first day is the last one not after the day
  of \<open>t\<close>.\<close>

lemma YearFromTime_spec:
  "DayFromYear (YearFromTime t) \<le> Day t \<and> Day t < DayFromYear (YearFromTime t + 1)"
proof -
  define d where "d = Day t"
  define q where "q = (400 * d) div 146097"
  define y where "y = 1970 + q"
  have lo: "146097 * q \<le> 400 * d"
    unfolding q_def using div_bounds(1) [of 146097 "400 * d"] by simp
  have hi: "400 * d - 146096 \<le> 146097 * q"
    unfolding q_def using div_bounds(2) [of 146097 "400 * d"] by simp
  have "400 * DayFromYear (y - 1) \<le> 146097 * q"
    using DayFromYear_upper [of "y - 1"] unfolding y_def by simp
  then have a: "DayFromYear (y - 1) \<le> d"
    using lo by simp
  have "146097 * q + 146097 \<le> 400 * DayFromYear (y + 2)"
    using DayFromYear_lower [of "y + 2"] unfolding y_def by simp
  then have b: "d < DayFromYear (y + 2)"
    using hi by simp
  have c: "y + 1 + 1 = y + 2" "y - 1 + 1 = y" by simp_all
  have "YearFromTime t =
     (if DayFromYear (y + 1) \<le> d then y + 1 else if d < DayFromYear y then y - 1 else y)"
    by (simp add: YearFromTime_def Let_def d_def y_def q_def)
  then show ?thesis
    unfolding d_def [symmetric] using a b by (simp add: c)
qed

lemma MonthFromTime_range: "0 \<le> MonthFromTime t \<and> MonthFromTime t \<le> 11"
  by (simp add: MonthFromTime_def Let_def)

text \<open>Setting the day of the month to the current one plus \<open>n\<close> moves the date by
  \<open>n\<close> days, across the ends of months and years.\<close>

lemma MakeDay_shift:
  "MakeDay (YearFromTime t) (MonthFromTime t) (DateFromTime t + n) = Day t + n"
proof -
  have m: "MonthFromTime t div 12 = 0" "MonthFromTime t mod 12 = MonthFromTime t"
    using MonthFromTime_range [of t] by simp_all
  show ?thesis
    by (simp add: MakeDay_def m DateFromTime_def DayWithinYear_def InLeapYear_def)
qed

lemma MakeDate_shift: "MakeDate (Day t + n) (TimeWithinDay t) = t + n * msPerDay"
  by (simp add: MakeDate_def Day_def TimeWithinDay_def algebra_simps)

lemma setDate_getDate:
  "setDate tz (Date tv) (map_option (\<lambda>k. k + n) (getDate tz (Date tv)))
     = TimeClip (UTC tz (LocalTime tz tv + n * msPerDay))"
  by (simp add: setDate_def getDate_def MakeDay_shift MakeDate_shift)

lemma fixed_offset:
  assumes "\<forall>u b. tz u b = z"
  shows "UTC tz (LocalTime tz t + k) = t + k"
  using assms by (simp add: UTC_def LocalTime_def)

section \<open>The pre-save hook of a subscription\<close>

lemma renewalDate_assign:
  assumes "renewalDate this = None" and "startDate this = Some t"
    and "\<bar>t\<bar> \<le> 8640000000000000"
  shows "renewalDate (assign_renewalDate tz this) =
           Some (TimeClip (UTC tz (LocalTime tz t + renewalPeriod (frequency this) * msPerDay)))"
  using assms
  by (simp add: assign_renewalDate_def new_Date_def TimeClip_def setDate_getDate Let_def)

lemma renewalDate_assign_keep:
  "renewalDate this = Some d \<Longrightarrow> renewalDate (assign_renewalDate tz this) = Some d"
  by (simp add: assign_renewalDate_def)

lemma renewalDate_assign_set: "renewalDate (assign_renewalDate tz this) \<noteq> None"
  by (simp add: assign_renewalDate_def Let_def)

lemma status_assign_renewalDate: "status (assign_renewalDate tz this) = status this"
  by (simp add: assign_renewalDate_def Let_def)

lemma renewalDate_update_status: "renewalDate (update_status now this) = renewalDate this"
  by (simp add: update_status_def split: option.splits jsdate.splits)

lemma status_pre_save:
  "status (pre_save tz now this) =
     (case renewalDate (pre_save tz now this) of
        Some (Date r) \<Rightarrow> if r < now then inactive else status this
      | _ \<Rightarrow> status this)"
  unfolding pre_save_def renewalDate_update_status
  by (simp add: update_status_def status_assign_renewalDate split: option.splits jsdate.splits)

lemma sample_renewalDate:
  "renewalDate (pre_save utc now sample_subscription) = Some (Date 1707868800000)"
  unfolding pre_save_def renewalDate_update_status
  by (simp add: renewalDate_assign [where t = 1705276800000] sample_subscription_def utc_def
      renewalPeriod_def msPerDay_def UTC_def LocalTime_def TimeClip_def)

text \<open>
  C1. When a subscription is saved with its renewal date unset, the hook sets the
  renewal date to the start date moved forward, in local time, by the number of days of
  the frequency: 1 for daily, 7 for weekly, 30 for monthly, 365 for yearly. In a time
  zone with a fixed offset that is the start date plus that many times 86400000 ms,
  as long as the sum is a time value a \<open>Date\<close> can hold.
\<close>

theorem pre_save_assigns_renewalDate:
  assumes "renewalDate this = None" and "startDate this = Some t"
    and "\<bar>t\<bar> \<le> 8640000000000000"
  shows "renewalDate (pre_save tz now this) =
           Some (TimeClip (UTC tz (LocalTime tz t + renewalPeriod (frequency this) * msPerDay)))
       \<and> ((\<forall>u b. tz u b = z) \<and>
            \<bar>t + renewalPeriod (frequency this) * msPerDay\<bar> \<le> 8640000000000000 \<longrightarrow>
          renewalDate (pre_save tz now this) =
            Some (Date (t + renewalPeriod (frequency this) * msPerDay)))
       \<and> renewalPeriod daily = 1 \<and> renewalPeriod weekly = 7
       \<and> renewalPeriod monthly = 30 \<and> renewalPeriod yearly = 365"
proof -
  have a: "renewalDate (pre_save tz now this) =
      Some (TimeClip (UTC tz (LocalTime tz t + renewalPeriod (frequency this) * msPerDay)))"
    unfolding pre_save_def renewalDate_update_status using assms by (rule renewalDate_assign)
  have b: "renewalDate (pre_save tz now this) =
      Some (Date (t + renewalPeriod (frequency this) * msPerDay))"
    if "\<forall>u b. tz u b = z"
      and "\<bar>t + renewalPeriod (frequency this) * msPerDay\<bar> \<le> 8640000000000000"
    using that a by (simp add: fixed_offset TimeClip_def)
  have c: "renewalPeriod daily = 1 \<and> renewalPeriod weekly = 7
       \<and> renewalPeriod monthly = 30 \<and> renewalPeriod yearly = 365"
    by (simp add: renewalPeriod_def)
  show ?thesis using a b c by blast
qed

text \<open>A monthly subscription that starts on 2024-01-15 (UTC) gets the renewal date
  2024-02-14.\<close>

theorem pre_save_assigns_renewalDate_witness:
  "renewalDate sample_subscription = None
   \<and> startDate sample_subscription = Some 1705276800000
   \<and> frequency sample_subscription = monthly
   \<and> renewalDate (pre_save utc 1700000000000 sample_subscription) = Some (Date 1707868800000)
   \<and> (YearFromTime 1705276800000, MonthFromTime 1705276800000, DateFromTime 1705276800000)
       = (2024, 0, 15)
   \<and> (YearFromTime 1707868800000, MonthFromTime 1707868800000, DateFromTime 1707868800000)
       = (2024, 1, 14)"
proof -
  have cal: "(YearFromTime 1705276800000, MonthFromTime 1705276800000, DateFromTime 1705276800000)
       = (2024, 0, 15)"
    "(YearFromTime 1707868800000, MonthFromTime 1707868800000, DateFromTime 1707868800000)
       = (2024, 1, 14)"
    by code_simp+
  show ?thesis
    using pre_save_assigns_renewalDate
      [where this = sample_subscription and t = 1705276800000 and tz = utc and z = 0
         and now = 1700000000000]
    by (simp add: sample_subscription_def utc_def renewalPeriod_def msPerDay_def cal
        UTC_def LocalTime_def TimeClip_def)
qed

text \<open>
  C2. Whenever the renewal date that the document has after the hook, computed in this
  save or set before it, is earlier than the current time, the hook leaves the status
  \<open>inactive\<close>, whatever status the caller gave the document. That holds for every
  save, the first one and a later one alike.
\<close>

theorem pre_save_forces_inactive:
  "(renewalDate (pre_save tz now this) = Some (Date r) \<and> r < now \<longrightarrow>
      status (pre_save tz now this) = inactive)
   \<and> (renewalDate this = Some (Date r) \<and> r < now \<longrightarrow>
      status (pre_save tz now (this\<lparr>status := st\<rparr>)) = inactive)
   \<and> (renewalDate (pre_save tz now0 this) = Some (Date r) \<and> r < now \<longrightarrow>
      status (pre_save tz now ((pre_save tz now0 this)\<lparr>status := st\<rparr>)) = inactive)"
proof -
  have a: "status (update_status now s) = inactive"
    if "renewalDate s = Some (Date r)" and "r < now" for s
    using that by (simp add: update_status_def)
  have 1: "status (pre_save tz now this) = inactive"
    if "renewalDate (pre_save tz now this) = Some (Date r)" and "r < now"
    using that a [of "assign_renewalDate tz this"]
    by (simp add: pre_save_def renewalDate_update_status)
  have 2: "status (pre_save tz now (s\<lparr>status := st\<rparr>)) = inactive"
    if "renewalDate s = Some (Date r)" and "r < now" for s
    using that a [of "assign_renewalDate tz (s\<lparr>status := st\<rparr>)"]
      renewalDate_assign_keep [of "s\<lparr>status := st\<rparr>" "Date r"]
    by (simp add: pre_save_def)
  show ?thesis using 1 2 by blast
qed

theorem pre_save_forces_inactive_witness:
  "renewalDate (pre_save utc 1800000000000 sample_subscription) = Some (Date 1707868800000)
   \<and> status sample_subscription = active
   \<and> status (pre_save utc 1800000000000 sample_subscription) = inactive
   \<and> status (pre_save utc 1800000000000
        (sample_subscription\<lparr>renewalDate := Some (Date 1707868800000), status := active\<rparr>))
       = inactive
   \<and> status (pre_save utc 1800000000000
        ((pre_save utc 1700000000000 sample_subscription)\<lparr>status := active\<rparr>)) = inactive
   \<and> status (pre_save utc 1700000000000 sample_subscription) = active"
proof -
  have s: "status (pre_save utc 1700000000000 sample_subscription) = active"
    unfolding status_pre_save sample_renewalDate by (simp add: sample_subscription_def)
  show ?thesis
    using pre_save_forces_inactive
        [where tz = utc and now = 1800000000000 and this = sample_subscription
           and r = 1707868800000 and st = active and ?now0.0 = 1700000000000]
      pre_save_forces_inactive
        [where tz = utc and now = 1800000000000
           and this = "sample_subscription\<lparr>renewalDate := Some (Date 1707868800000)\<rparr>"
           and r = 1707868800000 and st = active and ?now0.0 = 1700000000000]
      sample_renewalDate s
    by (simp add: sample_subscription_def)
qed

text \<open>
  C3. A renewal date that is set is not changed by the hook; in particular a second
  save leaves the renewal date of the first, also when the frequency changed in between.
\<close>

theorem pre_save_keeps_renewalDate:
  "(renewalDate this = Some d \<longrightarrow> renewalDate (pre_save tz now this) = Some d)
   \<and> renewalDate (pre_save tz' now' ((pre_save tz now this)\<lparr>frequency := f\<rparr>))
       = renewalDate (pre_save tz now this)"
proof -
  have a: "renewalDate (pre_save z n s) = Some x" if "renewalDate s = Some x" for z n s x
    using that by (simp add: pre_save_def renewalDate_update_status renewalDate_assign_keep)
  obtain x where x: "renewalDate (pre_save tz now this) = Some x"
    using renewalDate_assign_set [of tz this]
    by (auto simp: pre_save_def renewalDate_update_status)
  have "renewalDate (pre_save tz' now' ((pre_save tz now this)\<lparr>frequency := f\<rparr>)) = Some x"
    by (rule a) (simp add: x)
  then show ?thesis using a [of this d tz now] x by simp
qed

theorem pre_save_keeps_renewalDate_witness:
  "renewalDate (sample_subscription\<lparr>renewalDate := Some (Date 1707868800000)\<rparr>)
     = Some (Date 1707868800000)
   \<and> renewalDate (pre_save utc 1800000000000
        (sample_subscription\<lparr>renewalDate := Some (Date 1707868800000)\<rparr>))
     = Some (Date 1707868800000)
   \<and> renewalDate (pre_save utc 1800000000000
        ((pre_save utc 1700000000000 sample_subscription)\<lparr>frequency := yearly\<rparr>))
     = renewalDate (pre_save utc 1700000000000 sample_subscription)"
  using pre_save_keeps_renewalDate
    [where this = "sample_subscription\<lparr>renewalDate := Some (Date 1707868800000)\<rparr>"
       and d = "Date 1707868800000" and tz = utc and now = 1800000000000]
    pre_save_keeps_renewalDate
    [where this = sample_subscription and tz = utc and now = 1700000000000
       and tz' = utc and now' = 1800000000000 and f = yearly]
  by simp

section \<open>Validation of the dates of a subscription\<close>

text \<open>
  C4. A candidate whose start date is not before its end date is not saved: the save
  ends with a validation failure that carries one error for \<open>startDate\<close> and one for
  \<open>endDate\<close>, each from its own validator reading the other field of the candidate.
  A candidate whose start date is before its end date passes both validators.
\<close>

theorem save_checks_date_order:
  assumes "startDate this = Some s" and "endDate this = Some e"
  shows "(e \<le> s \<longrightarrow>
            save tz now this = Inl (ValidationFailed
              [(''startDate'', ''start date must be before end date''),
               (''endDate'', ''end date must be after start date'')])
            \<and> validate_startDate this = [(''startDate'', ''start date must be before end date'')]
            \<and> validate_endDate this = [(''endDate'', ''end date must be after start date'')])
       \<and> (s < e \<longrightarrow> save tz now this = Inr (pre_save tz now this))"
  using assms
  by (simp add: save_def validate_dates_def validate_startDate_def validate_endDate_def
      startDate_validator_def endDate_validator_def)

theorem save_checks_date_order_witness:
  "save utc 1700000000000 (sample_subscription\<lparr>endDate := Some 1705276800000\<rparr>)
     = Inl (ValidationFailed
              [(''startDate'', ''start date must be before end date''),
               (''endDate'', ''end date must be after start date'')])
   \<and> save utc 1700000000000 sample_subscription
     = Inr (pre_save utc 1700000000000 sample_subscription)"
  using save_checks_date_order
    [where this = "sample_subscription\<lparr>endDate := Some 1705276800000\<rparr>"
       and s = 1705276800000 and e = 1705276800000 and tz = utc and now = 1700000000000]
    save_checks_date_order
    [where this = sample_subscription
       and s = 1705276800000 and e = 1736899200000 and tz = utc and now = 1700000000000]
  by (simp add: sample_subscription_def)

section \<open>Registration\<close>

lemma create_Inr:
  assumes "create env users n e (Some p) = Inr u"
  shows "password u = Some p \<and> uid u = newId env"
  using assms
  by (auto simp: create_def Let_def split: list.splits option.splits if_splits)

lemma field_password_toJSON:
  "field ''password'' (toJSON u) = map_option JStr (password u)"
  by (simp add: toJSON_def split: option.splits)

text \<open>
  C5. When a user with the email of the request exists, \<open>signup\<close> answers 400 with
  the message "User already exists" and does nothing else: \<open>next\<close> is not called, no
  document is created and the collection is the one it was, with the same number of
  documents. The transaction that the handler started is left as it is, in progress and
  empty.
\<close>

theorem signup_existing_email:
  assumes "findOne users (body_email b) = Some existing"
  shows "response (signup env users b) =
           Some (Response 400 (JObj [(''message'', JStr ''User already exists'')]))
       \<and> forwarded (signup env users b) = None
       \<and> collection (signup env users b) = users
       \<and> length (collection (signup env users b)) = length users
       \<and> session_used (signup env users b) =
           Some \<lparr>transaction = InProgress [], ended = False\<rparr>"
  using assms by (simp add: signup_def signup_try_def)

lemma sample_findOne: "findOne [sample_user] (body_email sample_body) = Some sample_user"
  by (simp add: findOne_def sample_body_def sample_user_def toLowerCase_def trim_def
      is_space_def is_upper_def code_def)

theorem signup_existing_email_witness:
  "findOne [sample_user] (body_email sample_body) = Some sample_user
   \<and> response (signup sample_env [sample_user] sample_body) =
       Some (Response 400 (JObj [(''message'', JStr ''User already exists'')]))
   \<and> collection (signup sample_env [sample_user] sample_body) = [sample_user]"
  using signup_existing_email [OF sample_findOne, of sample_env] sample_findOne
  by simp

text \<open>
  C6. The 201 response of a registration carries the issued token and the created
  document as \<open>User.create\<close> returned it. That document holds the \<open>password\<close> path,
  so the payload contains the hash that was stored: the password is not excluded from
  it.
\<close>

theorem signup_response_includes_password:
  assumes "response (signup env users b) = Some (Response 201 payload)"
  shows "\<exists>u h. field ''user'' payload = Some (toJSON u)
           \<and> hash_password env (body_password b) = Inr h
           \<and> password u = Some h
           \<and> field ''password'' (toJSON u) = Some (JStr h)"
proof -
  from assms obtain h u token where
    h: "hash_password env (body_password b) = Inr h"
    and u: "create env users (body_name b) (body_email b) (Some h) = Inr u"
    and p: "payload = JObj [(''message'', JStr ''User created successfully''),
                            (''user'', toJSON u), (''token'', JStr token),
                            (''success'', JBool True)]"
    by (auto simp: signup_def signup_try_def split: option.splits sum.splits)
  have "password u = Some h" using create_Inr [OF u] by simp
  then show ?thesis using h p by (auto simp: field_password_toJSON)
qed


lemmas char_defs = is_space_def is_upper_def is_lower_def is_digit_def is_special_def
  password_class_def code_def

lemma sample_signup:
  "signup sample_env [] sample_body =
     \<lparr>response = Some (Response 201 (JObj
        [(''message'', JStr ''User created successfully''),
         (''user'', toJSON sample_user),
         (''token'', JStr ''tokenx''),
         (''success'', JBool True)])),
      forwarded = None, collection = [sample_user],
      session_used = Some \<lparr>transaction = Committed, ended = True\<rparr>\<rparr>"
  by (simp add: signup_def signup_try_def findOne_def hash_password_def create_def
      validate_name_def validate_email_def validate_password_def email_regex_def
      password_regex_def toLowerCase_def trim_def char_defs
      sample_env_def sample_body_def sample_user_def)

theorem signup_response_includes_password_witness:
  "response (signup sample_env [] sample_body) =
     Some (Response 201 (JObj
        [(''message'', JStr ''User created successfully''),
         (''user'', toJSON sample_user),
         (''token'', JStr ''tokenx''),
         (''success'', JBool True)]))
   \<and> field ''password'' (toJSON sample_user) =
       Some (JStr ''$2a$10$N9qo8uLOickgx2ZMRZoMyeIjZAgcfl7p92ldGxad68LJZdL17lhWy'')"
proof -
  have r: "response (signup sample_env [] sample_body) =
     Some (Response 201 (JObj
        [(''message'', JStr ''User created successfully''),
         (''user'', toJSON sample_user),
         (''token'', JStr ''tokenx''),
         (''success'', JBool True)]))"
    by (simp add: sample_signup)
  have h: "hash_password sample_env (body_password sample_body) =
      Inr ''$2a$10$N9qo8uLOickgx2ZMRZoMyeIjZAgcfl7p92ldGxad68LJZdL17lhWy''"
    by (simp add: hash_password_def sample_env_def sample_body_def)
  from signup_response_includes_password [OF r] h
  have "field ''password'' (toJSON sample_user) =
       Some (JStr ''$2a$10$N9qo8uLOickgx2ZMRZoMyeIjZAgcfl7p92ldGxad68LJZdL17lhWy'')"
    by (auto simp: toJSON_def sample_user_def)
  with r show ?thesis by simp
qed

section \<open>Login\<close>

text \<open>
  C7. When an exception is thrown in the \<open>try\<close> block of \<open>signin\<close>, the handler
  aborts the transaction and stops there: it sends no response and does not call
  \<open>next\<close>, so the error is not forwarded and the session is not ended.
\<close>

theorem signin_swallows_error:
  assumes "signin_try env users b = Inl err"
  shows "response (signin env users b) = None
       \<and> forwarded (signin env users b) = None
       \<and> forwarded (signin env users b) \<noteq> Some (NextError err)
       \<and> session_used (signin env users b) = Some \<lparr>transaction = Aborted, ended = False\<rparr>"
  using assms by (simp add: signin_def)

lemma sample_signin_try:
  "signin_try sample_env [sample_user] (sample_body\<lparr>body_password := None\<rparr>)
     = Inl (IllegalArguments ''undefined, string'')"
  by (simp add: signin_try_def findOne_def compare_password_def toLowerCase_def trim_def
      char_defs sample_body_def sample_user_def)

theorem signin_swallows_error_witness:
  "signin_try sample_env [sample_user] (sample_body\<lparr>body_password := None\<rparr>)
     = Inl (IllegalArguments ''undefined, string'')
   \<and> response (signin sample_env [sample_user] (sample_body\<lparr>body_password := None\<rparr>)) = None
   \<and> forwarded (signin sample_env [sample_user] (sample_body\<lparr>body_password := None\<rparr>)) = None"
  using signin_swallows_error [OF sample_signin_try] sample_signin_try by simp

section \<open>The access guard\<close>

lemma bearer_token_no_prefix:
  "(case headers_authorization req of None \<Rightarrow> True | Some h \<Rightarrow> \<not> startsWith h ''Bearer'')
     \<Longrightarrow> bearer_token req = None"
  by (simp add: bearer_token_def split: option.splits)

text \<open>
  C8. \<open>authorize\<close> answers 401 "Unauthorized" when the request has no
  \<open>Authorization\<close> header or one that does not start with \<open>Bearer\<close>, and when the
  token verifies but no user has the identifier in it. When the verification of the
  token throws, the error goes to \<open>next\<close> and no response is sent. Otherwise the user
  found, without the \<open>password\<close> path, is attached to the request and \<open>next()\<close>
  is called.
\<close>

theorem authorize_cases:
  "((case headers_authorization req of None \<Rightarrow> True | Some h \<Rightarrow> \<not> startsWith h ''Bearer'')
      \<longrightarrow> authorize env users req =
            (\<lparr>response = Some (Response 401 (JObj [(''message'', JStr ''Unauthorized'')])),
              forwarded = None, collection = users, session_used = None\<rparr>, req))
   \<and> (bearer_token req = Some token \<and> token \<noteq> [] \<and> jwt_verify env token = Inl err
      \<longrightarrow> authorize env users req =
            (\<lparr>response = None, forwarded = Some (NextError err), collection = users,
              session_used = None\<rparr>, req))
   \<and> (bearer_token req = Some token \<and> token \<noteq> [] \<and> jwt_verify env token = Inr userId
        \<and> findById users userId = None
      \<longrightarrow> authorize env users req =
            (\<lparr>response = Some (Response 401 (JObj [(''message'', JStr ''Unauthorized'')])),
              forwarded = None, collection = users, session_used = None\<rparr>, req))
   \<and> (bearer_token req = Some token \<and> token \<noteq> [] \<and> jwt_verify env token = Inr userId
        \<and> findById users userId = Some u
      \<longrightarrow> authorize env users req =
            (\<lparr>response = None, forwarded = Some Next, collection = users,
              session_used = None\<rparr>,
             req\<lparr>req_user := Some (u\<lparr>password := None\<rparr>)\<rparr>))"
  using bearer_token_no_prefix [of req]
  by (simp add: authorize_def unauthorized_def select_minus_password_def)

lemma sample_tokens:
  "bearer_token (incoming ''Bearer garbage'') = Some ''garbage''"
  "bearer_token (incoming ''Bearer tokenxx'') = Some ''tokenxx''"
  "bearer_token (incoming ''Bearer tokenx'') = Some ''tokenx''"
  by (simp_all add: bearer_token_def incoming_def startsWith_def)

lemma sample_verify:
  "jwt_verify sample_env ''garbage'' = Inl (TokenError ''jwt malformed'')"
  "jwt_verify sample_env ''tokenxx'' = Inr 2"
  "jwt_verify sample_env ''tokenx'' = Inr 1"
  by (simp_all add: sample_env_def)

lemma sample_findById:
  "findById [sample_user] 2 = None"
  "findById [sample_user] 1 = Some sample_user"
  by (simp_all add: findById_def sample_user_def)

theorem authorize_cases_witness:
  "authorize sample_env [sample_user] \<lparr>headers_authorization = None, req_user = None\<rparr> =
     (\<lparr>response = Some (Response 401 (JObj [(''message'', JStr ''Unauthorized'')])),
       forwarded = None, collection = [sample_user], session_used = None\<rparr>,
      \<lparr>headers_authorization = None, req_user = None\<rparr>)
   \<and> authorize sample_env [sample_user] (incoming ''Basic dGVzdA=='') =
     (\<lparr>response = Some (Response 401 (JObj [(''message'', JStr ''Unauthorized'')])),
       forwarded = None, collection = [sample_user], session_used = None\<rparr>,
      incoming ''Basic dGVzdA=='')
   \<and> authorize sample_env [sample_user] (incoming ''Bearer garbage'') =
     (\<lparr>response = None, forwarded = Some (NextError (TokenError ''jwt malformed'')),
       collection = [sample_user], session_used = None\<rparr>,
      incoming ''Bearer garbage'')
   \<and> authorize sample_env [sample_user] (incoming ''Bearer tokenxx'') =
     (\<lparr>response = Some (Response 401 (JObj [(''message'', JStr ''Unauthorized'')])),
       forwarded = None, collection = [sample_user], session_used = None\<rparr>,
      incoming ''Bearer tokenxx'')
   \<and> authorize sample_env [sample_user] (incoming ''Bearer tokenx'') =
     (\<lparr>response = None, forwarded = Some Next, collection = [sample_user],
       session_used = None\<rparr>,
      (incoming ''Bearer tokenx'')\<lparr>req_user := Some (sample_user\<lparr>password := None\<rparr>)\<rparr>)"
proof -
  have a: "(case headers_authorization \<lparr>headers_authorization = None, req_user = None\<rparr> of
              None \<Rightarrow> True | Some h \<Rightarrow> \<not> startsWith h ''Bearer'')"
    "(case headers_authorization (incoming ''Basic dGVzdA=='') of
              None \<Rightarrow> True | Some h \<Rightarrow> \<not> startsWith h ''Bearer'')"
    by (simp_all add: incoming_def startsWith_def)
  show ?thesis
    using authorize_cases
        [where req = "\<lparr>headers_authorization = None, req_user = None\<rparr>"
           and env = sample_env and users = "[sample_user]"]
      authorize_cases
        [where req = "incoming ''Basic dGVzdA==''" and env = sample_env and users = "[sample_user]"]
      authorize_cases
        [where req = "incoming ''Bearer garbage''" and env = sample_env
           and users = "[sample_user]" and token = "''garbage''"
           and err = "TokenError ''jwt malformed''"]
      authorize_cases
        [where req = "incoming ''Bearer tokenxx''" and env = sample_env
           and users = "[sample_user]" and token = "''tokenxx''" and userId = 2]
      authorize_cases
        [where req = "incoming ''Bearer tokenx''" and env = sample_env
           and users = "[sample_user]" and token = "''tokenx''" and userId = 1
           and u = sample_user]
      a sample_tokens sample_verify sample_findById
    by simp
qed

section \<open>Validation of the stored password\<close>

lemma create_invalid_password:
  assumes "\<not> list_all password_class h"
  shows "\<exists>errs. create env users n e (Some h) = Inl (ValidationError errs)
           \<and> (''password'', ''invalid password'') \<in> set errs"
proof -
  have ne: "h \<noteq> []" using assms by auto
  have v: "validate_password (Some h) = [(''password'', ''invalid password'')]"
    using assms ne by (simp add: validate_password_def password_regex_def)
  define errs where
    "errs = validate_name (map_option trim n)
            @ validate_email (map_option (\<lambda>s. toLowerCase (trim s)) e)
            @ validate_password (Some h)"
  have m: "(''password'', ''invalid password'') \<in> set errs"
    by (simp add: errs_def v)
  then obtain x xs where c: "errs = x # xs"
    by (cases errs) auto
  have "create env users n e (Some h) =
      (case (errs, map_option trim n, map_option (\<lambda>s. toLowerCase (trim s)) e, Some h) of
         ([], Some vn, Some ve, Some vp) \<Rightarrow>
           if list_ex (\<lambda>u. email u = ve) users then Inl DuplicateKeyError
           else Inr \<lparr>uid = newId env, name = vn, email = ve, password = Some vp,
                     createdAt = clock env, updatedAt = clock env\<rparr>
       | _ \<Rightarrow> Inl (ValidationError errs))"
    unfolding create_def Let_def errs_def ..
  then have "create env users n e (Some h) = Inl (ValidationError errs)"
    unfolding c by simp
  with m show ?thesis by blast
qed

text \<open>
  C9. The validator of the \<open>password\<close> path runs on the value that \<open>signup\<close>
  passes to \<open>User.create\<close>, which is the hash and not the password of the request.
  Whatever the password is, when its hash has a character outside
  \<open>[A-Za-z\d@$!%*?&]\<close>, such as a dot or a slash, the registration fails with a
  validation error that has "invalid password" for the path; the transaction is
  aborted and no document is created.
\<close>

theorem signup_validates_hash:
  assumes "findOne users (body_email b) = None"
    and "body_password b = Some pw"
    and "\<not> list_all password_class (bcrypt_hash env pw (bcrypt_genSalt env))"
  shows "\<exists>errs. (''password'', ''invalid password'') \<in> set errs
           \<and> signup env users b =
               \<lparr>response = None, forwarded = Some (NextError (ValidationError errs)),
                collection = users,
                session_used = Some \<lparr>transaction = Aborted, ended = True\<rparr>\<rparr>"
proof -
  obtain errs where
    c: "create env users (body_name b) (body_email b)
          (Some (bcrypt_hash env pw (bcrypt_genSalt env))) = Inl (ValidationError errs)"
    and m: "(''password'', ''invalid password'') \<in> set errs"
    using create_invalid_password [OF assms(3)] by blast
  have "signup env users b =
      \<lparr>response = None, forwarded = Some (NextError (ValidationError errs)),
       collection = users,
       session_used = Some \<lparr>transaction = Aborted, ended = True\<rparr>\<rparr>"
    using assms(1,2) c by (simp add: signup_def signup_try_def hash_password_def)
  with m show ?thesis by blast
qed

lemma slash_signup:
  "signup slash_env [] sample_body =
     \<lparr>response = None,
      forwarded = Some (NextError (ValidationError [(''password'', ''invalid password'')])),
      collection = [],
      session_used = Some \<lparr>transaction = Aborted, ended = True\<rparr>\<rparr>"
  by (simp add: signup_def signup_try_def findOne_def hash_password_def create_def
      validate_name_def validate_email_def validate_password_def email_regex_def
      password_regex_def toLowerCase_def trim_def char_defs
      slash_env_def sample_env_def sample_body_def)

theorem signup_validates_hash_witness:
  "findOne [] (body_email sample_body) = None
   \<and> body_password sample_body = Some ''Password1!''
   \<and> password_regex ''Password1!''
   \<and> bcrypt_hash slash_env ''Password1!'' (bcrypt_genSalt slash_env)
       = ''$2a$10$k87L/MF28Q673VKh8/cPi.SUl7MU/rWuSiIDDFayrKk/1tBsSQu4u''
   \<and> \<not> list_all password_class ''$2a$10$k87L/MF28Q673VKh8/cPi.SUl7MU/rWuSiIDDFayrKk/1tBsSQu4u''
   \<and> signup slash_env [] sample_body =
       \<lparr>response = None,
        forwarded = Some (NextError (ValidationError [(''password'', ''invalid password'')])),
        collection = [],
        session_used = Some \<lparr>transaction = Aborted, ended = True\<rparr>\<rparr>"
proof -
  have f: "findOne [] (body_email sample_body) = None"
    by (simp add: findOne_def sample_body_def)
  have p: "body_password sample_body = Some ''Password1!''"
    by (simp add: sample_body_def)
  have h: "bcrypt_hash slash_env ''Password1!'' (bcrypt_genSalt slash_env)
       = ''$2a$10$k87L/MF28Q673VKh8/cPi.SUl7MU/rWuSiIDDFayrKk/1tBsSQu4u''"
    by (simp add: slash_env_def sample_env_def)
  have n: "\<not> list_all password_class
      ''$2a$10$k87L/MF28Q673VKh8/cPi.SUl7MU/rWuSiIDDFayrKk/1tBsSQu4u''"
    by (simp add: char_defs)
  have n': "\<not> list_all password_class
      (bcrypt_hash slash_env ''Password1!'' (bcrypt_genSalt slash_env))"
    unfolding h by (rule n)
  have r: "password_regex ''Password1!''"
    by (simp add: password_regex_def char_defs)
  from signup_validates_hash [OF f p n'] obtain errs where
    e: "signup slash_env [] sample_body =
          \<lparr>response = None, forwarded = Some (NextError (ValidationError errs)),
           collection = [],
           session_used = Some \<lparr>transaction = Aborted, ended = True\<rparr>\<rparr>"
    by blast
  have "errs = [(''password'', ''invalid password'')]"
    using e unfolding slash_signup by simp
  with e have s: "signup slash_env [] sample_body =
       \<lparr>response = None,
        forwarded = Some (NextError (ValidationError [(''password'', ''invalid password'')])),
        collection = [],
        session_used = Some \<lparr>transaction = Aborted, ended = True\<rparr>\<rparr>"
    by simp
  show ?thesis
    by (intro conjI f p r h n s)
qed

section \<open>The profile of the user\<close>

lemma findById_uid: "findById users i = Some u \<Longrightarrow> uid u = i"
  by (auto simp: findById_def find_Some_iff)

lemma authorize_Next:
  assumes "authorize env users req = (out, req')" and "forwarded out = Some Next"
  shows "\<exists>u. req' = req\<lparr>req_user := Some (u\<lparr>password := None\<rparr>)\<rparr>"
  using assms
  by (auto simp: authorize_def Let_def select_minus_password_def
      split: option.splits if_splits sum.splits)

text \<open>Without a user on the request the handler answers 401.\<close>

lemma getUserProfile_without_user:
  "req_user req = None \<Longrightarrow>
   response (getUserProfile users req) =
     Some (Response 401 (JObj
       [(''message'', JStr ''Authentication required. Please login first.''),
        (''success'', JBool False)]))"
  by (simp add: getUserProfile_def)

text \<open>
  The handler after the guard: when \<open>authorize\<close> let a request pass, the user it
  attached has no \<open>password\<close> path; \<open>getUserProfile\<close> on that request loads the
  user again by the identifier, and when the user is still in the collection the 200
  response carries the document as stored, with the password hash. No route of the
  router runs the two in this order.
\<close>

lemma getUserProfile_after_authorize:
  assumes "authorize env users req = (out, req')" and "forwarded out = Some Next"
    and "req_user req' = Some attached"
    and "findById users' (uid attached) = Some stored"
    and "password stored = Some h"
  shows "password attached = None
       \<and> response (getUserProfile users' req') =
           Some (Response 200 (JObj
             [(''message'', JStr ''User profile fetched successfully''),
              (''data'', JObj [(''user'', toJSON stored), (''success'', JBool True)])]))
       \<and> field ''password'' (toJSON stored) = Some (JStr h)"
proof -
  obtain u where "req' = req\<lparr>req_user := Some (u\<lparr>password := None\<rparr>)\<rparr>"
    using authorize_Next [OF assms(1,2)] by blast
  then have "password attached = None" using assms(3) by auto
  moreover have "response (getUserProfile users' req') =
           Some (Response 200 (JObj
             [(''message'', JStr ''User profile fetched successfully''),
              (''data'', JObj [(''user'', toJSON stored), (''success'', JBool True)])]))"
    using assms(3,4) by (simp add: getUserProfile_def)
  moreover have "field ''password'' (toJSON stored) = Some (JStr h)"
    using assms(5) by (simp add: field_password_toJSON)
  ultimately show ?thesis by blast
qed

lemma sample_authorize:
  "authorize sample_env [sample_user] (incoming ''Bearer tokenx'') =
     (\<lparr>response = None, forwarded = Some Next, collection = [sample_user],
       session_used = None\<rparr>,
      (incoming ''Bearer tokenx'')\<lparr>req_user := Some (sample_user\<lparr>password := None\<rparr>)\<rparr>)"
  by (simp add: authorize_def sample_tokens sample_verify findById_def sample_user_def
      select_minus_password_def)

text \<open>
  C10. A request to \<open>GET /users/\<close> runs \<open>getUserProfile\<close> alone, without the
  guard. Whatever its \<open>Authorization\<close> header and whatever the collection holds,
  also when the header has a token that verifies and the user of the token exists, no
  user is attached when the handler runs: the answer is 401 "Authentication required.
  Please login first.", never the 200 response with the document of the user, and
  \<open>next\<close> is not called.
\<close>

theorem userRouter_get_root_unauthorized:
  "userRouter_get_root users authorization =
     \<lparr>response = Some (Response 401 (JObj
        [(''message'', JStr ''Authentication required. Please login first.''),
         (''success'', JBool False)])),
      forwarded = None, collection = users, session_used = None\<rparr>"
  by (simp add: userRouter_get_root_def getUserProfile_def)

text \<open>
  The request with the token of the sample user: the guard would let it pass and the
  user is in the collection, and the route answers 401.
\<close>

lemma userRouter_get_root_sample:
  "fst (authorize sample_env [sample_user] (incoming ''Bearer tokenx'')) =
     \<lparr>response = None, forwarded = Some Next, collection = [sample_user],
      session_used = None\<rparr>
   \<and> findById [sample_user] 1 = Some sample_user
   \<and> response (userRouter_get_root [sample_user] (Some ''Bearer tokenx'')) =
       Some (Response 401 (JObj
         [(''message'', JStr ''Authentication required. Please login first.''),
          (''success'', JBool False)]))"
  by (intro conjI)
    (simp_all only: sample_authorize fst_conv sample_findById,
     simp add: userRouter_get_root_def getUserProfile_def)

end
